theory Spec2Isabelle
  imports Main "HOL-Library.Word" "HOL-Library.Multiset"
begin

section \<open>Binary floating-point values\<close>

text \<open>
  The accumulators compute in the C++ types \<open>float\<close> and \<open>double\<close>. They are modelled
  as IEEE 754 binary32 and binary64 with the default rounding (to nearest, ties to even),
  every operation rounded to the type it is evaluated in. A finite value is a sign, a
  mantissa and an exponent, standing for \<open>(-1)^s * m * 2^e\<close>; its canonical form has an
  odd mantissa (or is \<open>Fin s 0 0\<close>, a signed zero), so that a value of \<open>float\<close> is the
  same term as a value of \<open>double\<close> and widening conversions change nothing. There is a
  single NaN.
\<close>

datatype fp = Fin bool nat int | Infty bool | NaN

datatype ftype = Float | Double

fun prec :: "ftype \<Rightarrow> nat" where
  "prec Float = 24"
| "prec Double = 53"

text \<open>The exponent of the least significant bit of a subnormal number.\<close>

fun emin :: "ftype \<Rightarrow> int" where
  "emin Float = -149"
| "emin Double = -1074"

text \<open>The exponent of the least significant bit of the largest finite number.\<close>

fun emax :: "ftype \<Rightarrow> int" where
  "emax Float = 104"
| "emax Double = 971"

fun bitlen :: "nat \<Rightarrow> nat" where
  "bitlen n = (if n = 0 then 0 else Suc (bitlen (n div 2)))"

declare bitlen.simps [simp del]

fun norm_odd :: "nat \<Rightarrow> int \<Rightarrow> nat \<times> int" where
  "norm_odd m e =
     (if m = 0 then (0, 0)
      else if even m then norm_odd (m div 2) (e + 1)
      else (m, e))"

declare norm_odd.simps [simp del]

text \<open>
  \<open>pack t s m e\<close> is the value \<open>m * 2^e\<close>, already rounded (\<open>m\<close> is at most
  \<open>2^prec t\<close>), as a value of type \<open>t\<close>: infinite when it lies above the largest
  finite number, in canonical form otherwise.
\<close>

definition pack :: "ftype \<Rightarrow> bool \<Rightarrow> nat \<Rightarrow> int \<Rightarrow> fp" where
  "pack t s m e =
     (if m = 0 then Fin s 0 0
      else if int (bitlen m) + e > int (prec t) + emax t then Infty s
      else (case norm_odd m e of (m', e') \<Rightarrow> Fin s m' e'))"

text \<open>
  \<open>round_fp t s m e\<close> rounds the exact value \<open>(-1)^s * m * 2^e\<close> to type \<open>t\<close>, to
  nearest, ties to even.
\<close>

definition round_fp :: "ftype \<Rightarrow> bool \<Rightarrow> nat \<Rightarrow> int \<Rightarrow> fp" where
  "round_fp t s m e =
     (let e' = max (emin t) (e + int (bitlen m) - int (prec t))
      in if e' \<le> e then pack t s m e
         else
           (let d = nat (e' - e);
                q = m div 2 ^ d;
                r = m mod 2 ^ d;
                h = 2 ^ (d - 1)
            in pack t s (if h < r \<or> (r = h \<and> odd q) then q + 1 else q) e'))"

definition fp_zero :: fp where
  "fp_zero = Fin False 0 0"

definition fp_one :: fp where
  "fp_one = Fin False 1 0"

fun fneg :: "fp \<Rightarrow> fp" where
  "fneg (Fin s m e) = Fin (\<not> s) m e"
| "fneg (Infty s) = Infty (\<not> s)"
| "fneg NaN = NaN"

definition signed_int :: "bool \<Rightarrow> nat \<Rightarrow> int" where
  "signed_int s m = (if s then - int m else int m)"

fun fadd :: "ftype \<Rightarrow> fp \<Rightarrow> fp \<Rightarrow> fp" where
  "fadd t NaN b = NaN"
| "fadd t a NaN = NaN"
| "fadd t (Infty s1) (Infty s2) = (if s1 = s2 then Infty s1 else NaN)"
| "fadd t (Infty s1) (Fin s2 m2 e2) = Infty s1"
| "fadd t (Fin s1 m1 e1) (Infty s2) = Infty s2"
| "fadd t (Fin s1 m1 e1) (Fin s2 m2 e2) =
     (let e = min e1 e2;
          v = signed_int s1 m1 * 2 ^ nat (e1 - e) + signed_int s2 m2 * 2 ^ nat (e2 - e)
      in if v = 0 then Fin (s1 \<and> s2) 0 0
         else round_fp t (v < 0) (nat \<bar>v\<bar>) e)"

definition fsub :: "ftype \<Rightarrow> fp \<Rightarrow> fp \<Rightarrow> fp" where
  "fsub t a b = fadd t a (fneg b)"

fun fmul :: "ftype \<Rightarrow> fp \<Rightarrow> fp \<Rightarrow> fp" where
  "fmul t NaN b = NaN"
| "fmul t a NaN = NaN"
| "fmul t (Infty s1) (Infty s2) = Infty (s1 \<noteq> s2)"
| "fmul t (Infty s1) (Fin s2 m2 e2) = (if m2 = 0 then NaN else Infty (s1 \<noteq> s2))"
| "fmul t (Fin s1 m1 e1) (Infty s2) = (if m1 = 0 then NaN else Infty (s1 \<noteq> s2))"
| "fmul t (Fin s1 m1 e1) (Fin s2 m2 e2) = round_fp t (s1 \<noteq> s2) (m1 * m2) (e1 + e2)"

text \<open>
  Division and square root are not exact in binary: the quotient (the root) is computed
  with at least two bits more than the precision, and a last bit that is set when the
  rest is not zero, which rounds as the exact value does.
\<close>

fun fdiv :: "ftype \<Rightarrow> fp \<Rightarrow> fp \<Rightarrow> fp" where
  "fdiv t NaN b = NaN"
| "fdiv t a NaN = NaN"
| "fdiv t (Infty s1) (Infty s2) = NaN"
| "fdiv t (Infty s1) (Fin s2 m2 e2) = Infty (s1 \<noteq> s2)"
| "fdiv t (Fin s1 m1 e1) (Infty s2) = Fin (s1 \<noteq> s2) 0 0"
| "fdiv t (Fin s1 m1 e1) (Fin s2 m2 e2) =
     (if m2 = 0 then (if m1 = 0 then NaN else Infty (s1 \<noteq> s2))
      else
        (let k = prec t + 2 + bitlen m2;
             n = m1 * 2 ^ k;
             q = n div m2;
             st = (if n mod m2 = 0 then 0 else 1)
         in round_fp t (s1 \<noteq> s2) (2 * q + st) (e1 - e2 - int k - 1)))"

text \<open>The integer square root, rounded down.\<close>

fun isqrt :: "nat \<Rightarrow> nat" where
  "isqrt n =
     (if n < 2 then n
      else (let r = 2 * isqrt (n div 4)
            in if (r + 1) * (r + 1) \<le> n then r + 1 else r))"

declare isqrt.simps [simp del]

fun fsqrt :: "ftype \<Rightarrow> fp \<Rightarrow> fp" where
  "fsqrt t NaN = NaN"
| "fsqrt t (Infty s) = (if s then NaN else Infty False)"
| "fsqrt t (Fin s m e) =
     (if m = 0 then Fin s 0 0
      else if s then NaN
      else
        (let k = 2 * (prec t + 2) + (if even e then 0 else 1);
             n = m * 2 ^ k;
             r = isqrt n;
             st = (if r * r = n then 0 else 1)
         in round_fp t False (2 * r + st) ((e - int k) div 2 - 1)))"

text \<open>Conversion to a floating-point type, and of integers to \<open>double\<close>.\<close>

fun fconv :: "ftype \<Rightarrow> fp \<Rightarrow> fp" where
  "fconv t (Fin s m e) = round_fp t s m e"
| "fconv t (Infty s) = Infty s"
| "fconv t NaN = NaN"

definition double_of_int :: "int \<Rightarrow> fp" where
  "double_of_int i = round_fp Double (i < 0) (nat \<bar>i\<bar>) 0"

definition double_of_uint32 :: "32 word \<Rightarrow> fp" where
  "double_of_uint32 w = round_fp Double False (unat w) 0"

text \<open>The comparisons \<open>x > 0\<close>, \<open>x <= 0\<close> and \<open>x >= 0\<close>; all are false of a NaN.\<close>

fun fgt0 :: "fp \<Rightarrow> bool" where
  "fgt0 (Fin s m e) = (\<not> s \<and> 0 < m)"
| "fgt0 (Infty s) = (\<not> s)"
| "fgt0 NaN = False"

fun fle0 :: "fp \<Rightarrow> bool" where
  "fle0 (Fin s m e) = (s \<or> m = 0)"
| "fle0 (Infty s) = s"
| "fle0 NaN = False"

fun fge0 :: "fp \<Rightarrow> bool" where
  "fge0 (Fin s m e) = (\<not> s \<or> m = 0)"
| "fge0 (Infty s) = (\<not> s)"
| "fge0 NaN = False"

fun is_finite :: "fp \<Rightarrow> bool" where
  "is_finite (Fin s m e) = True"
| "is_finite (Infty s) = False"
| "is_finite NaN = False"

text \<open>
  The values of a floating-point type: the infinities, the NaN, the zeros, and the
  finite numbers of at most \<open>prec t\<close> bits within the exponent range.
\<close>

fun in_format :: "ftype \<Rightarrow> fp \<Rightarrow> bool" where
  "in_format t (Fin s m e) =
     (if m = 0 then e = 0
      else odd m \<and> bitlen m \<le> prec t \<and> emin t \<le> e
           \<and> int (bitlen m) + e \<le> int (prec t) + emax t)"
| "in_format t (Infty s) = True"
| "in_format t NaN = True"


section \<open>The arithmetic of a template instance\<close>

text \<open>
  The class templates are parameterised by the input type \<open>TInput\<close> and the calculation
  type \<open>TCalc\<close>; the traits fix the type the sums are stored in. What an instance does
  with these types is collected in a record: the value of \<open>TCalc(0)\<close> as stored, the two
  accumulations \<open>s += TCalc(value * value)\<close> and \<open>s += TCalc(value)\<close>, the conversion of
  a stored sum to \<open>double\<close> (in \<open>n * sum_of_squares\<close>) and the product \<open>sum * sum\<close>,
  formed in the stored type and then converted to \<open>double\<close>.
\<close>

record ('i, 's) arith =
  calc_zero :: 's
  add_square :: "'s \<Rightarrow> 'i \<Rightarrow> 's"
  add_value :: "'s \<Rightarrow> 'i \<Rightarrow> 's"
  to_double :: "'s \<Rightarrow> fp"
  square_to_double :: "'s \<Rightarrow> fp"

text \<open>
  The specialisations \<open>variance_traits<float, TCalc>\<close> and
  \<open>variance_traits<double, TCalc>\<close> (and those of \<open>standard_deviation_traits\<close>): the type
  of the stored sums for a floating-point input type.
\<close>

fun traits_storage :: "ftype \<Rightarrow> ftype \<Rightarrow> ftype" where
  "traits_storage Float TCalc = Float"
| "traits_storage Double TCalc = Double"

text \<open>The usual arithmetic conversions: the common type of two floating-point operands.\<close>

fun common_type :: "ftype \<Rightarrow> ftype \<Rightarrow> ftype" where
  "common_type Float Float = Float"
| "common_type a b = Double"

text \<open>The instances whose \<open>TInput\<close> and \<open>TCalc\<close> are floating-point types.\<close>

definition fp_arith :: "ftype \<Rightarrow> ftype \<Rightarrow> (fp, fp) arith" where
  "fp_arith TInput TCalc =
     (let S = traits_storage TInput TCalc in
      \<lparr> calc_zero = fconv S (fconv TCalc fp_zero),
        add_square = (\<lambda>s value.
          fconv S (fadd (common_type S TCalc) s (fconv TCalc (fmul TInput value value)))),
        add_value = (\<lambda>s value. fconv S (fadd (common_type S TCalc) s (fconv TCalc value))),
        to_double = fconv Double,
        square_to_double = (\<lambda>s. fconv Double (fmul S s s)) \<rparr>)"

text \<open>
  The instance with \<open>TInput = TCalc = uint32_t\<close> (the generic traits, the sums stored in
  \<open>TCalc\<close>), where \<open>int\<close> has at most 32 bits: unsigned arithmetic wraps around.
\<close>

definition uint32_arith :: "(32 word, 32 word) arith" where
  "uint32_arith =
     \<lparr> calc_zero = 0,
       add_square = (\<lambda>s value. s + value * value),
       add_value = (\<lambda>s value. s + value),
       to_double = double_of_uint32,
       square_to_double = (\<lambda>s. double_of_uint32 (s * s)) \<rparr>"

text \<open>
  The instance with \<open>TInput = TCalc = uint8_t\<close> (the generic traits), where \<open>int\<close> has
  32 bits: the operands of \<open>*\<close> and \<open>+\<close> are promoted to \<open>int\<close>, where neither
  operation overflows, and the conversions to \<open>TCalc\<close> and the assignments to the
  stored sums reduce modulo \<open>2^8\<close>.
\<close>

definition uint8_arith :: "(8 word, 8 word) arith" where
  "uint8_arith =
     \<lparr> calc_zero = 0,
       add_square = (\<lambda>s value.
         word_of_int (uint s + uint (word_of_int (uint value * uint value) :: 8 word))),
       add_value = (\<lambda>s value. word_of_int (uint s + uint value)),
       to_double = (\<lambda>s. double_of_int (uint s)),
       square_to_double = (\<lambda>s. double_of_int (uint s * uint s)) \<rparr>"

section \<open>The variance accumulator\<close>

record 's variance_traits =
  sum_of_squares :: 's
  sum_val :: 's
  counter :: "32 word"

record 's variance = "'s variance_traits" +
  variance_value :: fp
  recalculate :: bool

text \<open>
  \<open>variance_traits::clear\<close>, a public member of a public base: it is applied to the
  accumulator and leaves the members of the derived class as they are.
\<close>

definition clear ::
  "('i, 's) arith \<Rightarrow> ('s, 'z) variance_traits_scheme \<Rightarrow> ('s, 'z) variance_traits_scheme" where
  "clear A t = t\<lparr>sum_of_squares := calc_zero A, sum_val := calc_zero A, counter := 0\<rparr>"

text \<open>\<open>variance_type\<close> and the constant \<open>Adjustment\<close>.\<close>

definition Sample :: bool where
  "Sample = False"

definition Population :: bool where
  "Population = True"

definition Adjustment :: "bool \<Rightarrow> int" where
  "Adjustment Variance_Type = (if Variance_Type = Population then 0 else 1)"

definition variance_new :: "('i, 's) arith \<Rightarrow> 's variance" where
  "variance_new A =
     \<lparr> sum_of_squares = calc_zero A, sum_val = calc_zero A, counter = 0,
       variance_value = fp_zero, recalculate = True \<rparr>"

definition add :: "('i, 's) arith \<Rightarrow> 's variance \<Rightarrow> 'i \<Rightarrow> 's variance" where
  "add A v value =
     v\<lparr>sum_of_squares := add_square A (sum_of_squares v) value,
       sum_val := add_value A (sum_val v) value,
       counter := counter v + 1,
       recalculate := True\<rparr>"

text \<open>The range \<open>[first, last)\<close> is the list of the values it yields.\<close>

fun add_range :: "('i, 's) arith \<Rightarrow> 's variance \<Rightarrow> 'i list \<Rightarrow> 's variance" where
  "add_range A v [] = v"
| "add_range A v (x # xs) = add_range A (add A v x) xs"

definition variance_new_range :: "('i, 's) arith \<Rightarrow> 'i list \<Rightarrow> 's variance" where
  "variance_new_range A xs = add_range A (variance_new A) xs"

definition call :: "('i, 's) arith \<Rightarrow> 's variance \<Rightarrow> 'i \<Rightarrow> 's variance" where
  "call A v value = add A v value"

definition call_range :: "('i, 's) arith \<Rightarrow> 's variance \<Rightarrow> 'i list \<Rightarrow> 's variance" where
  "call_range A v xs = add_range A v xs"

text \<open>The formula of \<open>get_variance\<close> and of \<open>calculate\<close>, for a counter that is not 0.\<close>

definition compute_variance ::
  "('i, 's) arith \<Rightarrow> bool \<Rightarrow> 32 word \<Rightarrow> 's \<Rightarrow> 's \<Rightarrow> fp" where
  "compute_variance A Variance_Type c ssq sm =
     (let n = double_of_uint32 c;
          adjustment =
            fdiv Double fp_one
              (fmul Double n (fsub Double n (double_of_int (Adjustment Variance_Type))));
          square_of_sum = square_to_double A sm
      in fmul Double (fsub Double (fmul Double n (to_double A ssq)) square_of_sum) adjustment)"

definition get_variance ::
  "('i, 's) arith \<Rightarrow> bool \<Rightarrow> 's variance \<Rightarrow> fp \<times> 's variance" where
  "get_variance A Variance_Type v =
     (if recalculate v then
        (let v1 = v\<lparr>variance_value := fp_zero\<rparr>;
             v2 = (if counter v1 \<noteq> 0
                   then v1\<lparr>variance_value :=
                          compute_variance A Variance_Type (counter v1)
                            (sum_of_squares v1) (sum_val v1)\<rparr>
                   else v1);
             v3 = v2\<lparr>recalculate := False\<rparr>
         in (variance_value v3, v3))
      else (variance_value v, v))"

definition operator_double ::
  "('i, 's) arith \<Rightarrow> bool \<Rightarrow> 's variance \<Rightarrow> fp \<times> 's variance" where
  "operator_double A Variance_Type v = get_variance A Variance_Type v"

text \<open>
  \<open>size_t(counter)\<close>, for a \<open>size_t\<close> of at least 32 bits: the conversion keeps the
  value.
\<close>

definition variance_count :: "('s, 'z) variance_traits_scheme \<Rightarrow> nat" where
  "variance_count v = unat (counter v)"

text \<open>The calls a client can make, and the accumulator after a sequence of them.\<close>

datatype 'i call =
  Add 'i | Add_range "'i list" | Call 'i | Call_range "'i list"
  | Get_variance | Operator_double | Count | Clear

fun exec :: "('i, 's) arith \<Rightarrow> bool \<Rightarrow> 's variance \<Rightarrow> 'i call \<Rightarrow> 's variance" where
  "exec A vt v (Add x) = add A v x"
| "exec A vt v (Add_range xs) = add_range A v xs"
| "exec A vt v (Call x) = call A v x"
| "exec A vt v (Call_range xs) = call_range A v xs"
| "exec A vt v Get_variance = snd (get_variance A vt v)"
| "exec A vt v Operator_double = snd (operator_double A vt v)"
| "exec A vt v Count = v"
| "exec A vt v Clear = clear A v"

definition run :: "('i, 's) arith \<Rightarrow> bool \<Rightarrow> 'i call list \<Rightarrow> 's variance" where
  "run A vt cs = foldl (exec A vt) (variance_new A) cs"

section \<open>The standard-deviation accumulator\<close>

record 's standard_deviation_traits =
  sd_sum_of_squares :: 's
  sd_sum_val :: 's
  sd_counter :: "32 word"

record 's standard_deviation = "'s standard_deviation_traits" +
  sd_variance_value :: fp
  standard_deviation_value :: fp
  sd_recalculate :: bool

text \<open>\<open>standard_deviation_traits::clear\<close>, inherited as \<open>variance_traits::clear\<close> is.\<close>

definition sd_clear ::
  "('i, 's) arith \<Rightarrow> ('s, 'z) standard_deviation_traits_scheme
     \<Rightarrow> ('s, 'z) standard_deviation_traits_scheme" where
  "sd_clear A t =
     t\<lparr>sd_sum_of_squares := calc_zero A, sd_sum_val := calc_zero A, sd_counter := 0\<rparr>"

text \<open>\<open>standard_deviation_type\<close> and the constant \<open>Adjustment\<close> of \<open>standard_deviation\<close>.\<close>

definition sd_Sample :: bool where
  "sd_Sample = False"

definition sd_Population :: bool where
  "sd_Population = True"

definition sd_Adjustment :: "bool \<Rightarrow> int" where
  "sd_Adjustment Standard_Deviation_Type =
     (if Standard_Deviation_Type = sd_Population then 0 else 1)"

definition standard_deviation_new :: "('i, 's) arith \<Rightarrow> 's standard_deviation" where
  "standard_deviation_new A =
     \<lparr> sd_sum_of_squares = calc_zero A, sd_sum_val = calc_zero A, sd_counter = 0,
       sd_variance_value = fp_zero, standard_deviation_value = fp_zero,
       sd_recalculate = True \<rparr>"

definition sd_add ::
  "('i, 's) arith \<Rightarrow> 's standard_deviation \<Rightarrow> 'i \<Rightarrow> 's standard_deviation" where
  "sd_add A v value =
     v\<lparr>sd_sum_of_squares := add_square A (sd_sum_of_squares v) value,
       sd_sum_val := add_value A (sd_sum_val v) value,
       sd_counter := sd_counter v + 1,
       sd_recalculate := True\<rparr>"

fun sd_add_range ::
  "('i, 's) arith \<Rightarrow> 's standard_deviation \<Rightarrow> 'i list \<Rightarrow> 's standard_deviation" where
  "sd_add_range A v [] = v"
| "sd_add_range A v (x # xs) = sd_add_range A (sd_add A v x) xs"

definition standard_deviation_new_range ::
  "('i, 's) arith \<Rightarrow> 'i list \<Rightarrow> 's standard_deviation" where
  "standard_deviation_new_range A xs = sd_add_range A (standard_deviation_new A) xs"

definition sd_call ::
  "('i, 's) arith \<Rightarrow> 's standard_deviation \<Rightarrow> 'i \<Rightarrow> 's standard_deviation" where
  "sd_call A v value = sd_add A v value"

definition sd_call_range ::
  "('i, 's) arith \<Rightarrow> 's standard_deviation \<Rightarrow> 'i list \<Rightarrow> 's standard_deviation" where
  "sd_call_range A v xs = sd_add_range A v xs"

definition sd_compute_variance ::
  "('i, 's) arith \<Rightarrow> bool \<Rightarrow> 32 word \<Rightarrow> 's \<Rightarrow> 's \<Rightarrow> fp" where
  "sd_compute_variance A Standard_Deviation_Type c ssq sm =
     (let n = double_of_uint32 c;
          adjustment =
            fdiv Double fp_one
              (fmul Double n
                 (fsub Double n (double_of_int (sd_Adjustment Standard_Deviation_Type))));
          square_of_sum = square_to_double A sm
      in fmul Double (fsub Double (fmul Double n (to_double A ssq)) square_of_sum) adjustment)"

definition calculate ::
  "('i, 's) arith \<Rightarrow> bool \<Rightarrow> 's standard_deviation \<Rightarrow> 's standard_deviation" where
  "calculate A Standard_Deviation_Type v =
     (if sd_recalculate v then
        (let v1 = v\<lparr>standard_deviation_value := fp_zero, sd_variance_value := fp_zero\<rparr>;
             v2 = (if sd_counter v1 \<noteq> 0 then
                     (let v' = v1\<lparr>sd_variance_value :=
                                   sd_compute_variance A Standard_Deviation_Type (sd_counter v1)
                                     (sd_sum_of_squares v1) (sd_sum_val v1)\<rparr>
                      in if fgt0 (sd_variance_value v')
                         then v'\<lparr>standard_deviation_value :=
                                   fsqrt Double (sd_variance_value v')\<rparr>
                         else v')
                   else v1)
         in v2\<lparr>sd_recalculate := False\<rparr>)
      else v)"

definition sd_get_variance ::
  "('i, 's) arith \<Rightarrow> bool \<Rightarrow> 's standard_deviation \<Rightarrow> fp \<times> 's standard_deviation" where
  "sd_get_variance A Standard_Deviation_Type v =
     (let v' = calculate A Standard_Deviation_Type v in (sd_variance_value v', v'))"

definition get_standard_deviation ::
  "('i, 's) arith \<Rightarrow> bool \<Rightarrow> 's standard_deviation \<Rightarrow> fp \<times> 's standard_deviation" where
  "get_standard_deviation A Standard_Deviation_Type v =
     (let v' = calculate A Standard_Deviation_Type v in (standard_deviation_value v', v'))"

definition sd_operator_double ::
  "('i, 's) arith \<Rightarrow> bool \<Rightarrow> 's standard_deviation \<Rightarrow> fp \<times> 's standard_deviation" where
  "sd_operator_double A Standard_Deviation_Type v =
     get_standard_deviation A Standard_Deviation_Type v"

definition sd_count :: "('s, 'z) standard_deviation_traits_scheme \<Rightarrow> nat" where
  "sd_count v = unat (sd_counter v)"

datatype 'i sd_call =
  Sd_add 'i | Sd_add_range "'i list" | Sd_call 'i | Sd_call_range "'i list"
  | Sd_get_variance | Sd_get_standard_deviation | Sd_operator_double | Sd_count | Sd_clear

fun sd_exec ::
  "('i, 's) arith \<Rightarrow> bool \<Rightarrow> 's standard_deviation \<Rightarrow> 'i sd_call \<Rightarrow> 's standard_deviation"
  where
  "sd_exec A vt v (Sd_add x) = sd_add A v x"
| "sd_exec A vt v (Sd_add_range xs) = sd_add_range A v xs"
| "sd_exec A vt v (Sd_call x) = sd_call A v x"
| "sd_exec A vt v (Sd_call_range xs) = sd_call_range A v xs"
| "sd_exec A vt v Sd_get_variance = snd (sd_get_variance A vt v)"
| "sd_exec A vt v Sd_get_standard_deviation = snd (get_standard_deviation A vt v)"
| "sd_exec A vt v Sd_operator_double = snd (sd_operator_double A vt v)"
| "sd_exec A vt v Sd_count = v"
| "sd_exec A vt v Sd_clear = sd_clear A v"

definition sd_run :: "('i, 's) arith \<Rightarrow> bool \<Rightarrow> 'i sd_call list \<Rightarrow> 's standard_deviation" where
  "sd_run A vt cs = foldl (sd_exec A vt) (standard_deviation_new A) cs"

section \<open>What the specification says, for comparison\<close>

text \<open>
  The range \<open>add\<close> as the specification words it: the single-value \<open>add\<close> applied to
  every element, in sequence order.
\<close>

definition add_each :: "('i, 's) arith \<Rightarrow> 's variance \<Rightarrow> 'i list \<Rightarrow> 's variance" where
  "add_each A v xs = foldl (add A) v xs"

definition sd_add_each ::
  "('i, 's) arith \<Rightarrow> 's standard_deviation \<Rightarrow> 'i list \<Rightarrow> 's standard_deviation" where
  "sd_add_each A v xs = foldl (sd_add A) v xs"



text \<open>The number of values added since construction or the last \<open>clear\<close>.\<close>

fun added :: "nat \<Rightarrow> 'i call \<Rightarrow> nat" where
  "added k (Add x) = k + 1"
| "added k (Add_range xs) = k + length xs"
| "added k (Call x) = k + 1"
| "added k (Call_range xs) = k + length xs"
| "added k Get_variance = k"
| "added k Operator_double = k"
| "added k Count = k"
| "added k Clear = 0"

fun sd_added :: "nat \<Rightarrow> 'i sd_call \<Rightarrow> nat" where
  "sd_added k (Sd_add x) = k + 1"
| "sd_added k (Sd_add_range xs) = k + length xs"
| "sd_added k (Sd_call x) = k + 1"
| "sd_added k (Sd_call_range xs) = k + length xs"
| "sd_added k Sd_get_variance = k"
| "sd_added k Sd_get_standard_deviation = k"
| "sd_added k Sd_operator_double = k"
| "sd_added k Sd_count = k"
| "sd_added k Sd_clear = 0"

text \<open>
  The state of the cache: when the accumulator is not marked for recalculation and its
  counter is not 0, the cached variance is the one its sums give; the cached standard
  deviation always belongs to the cached variance.
\<close>

definition cache_ok :: "('i, 's) arith \<Rightarrow> bool \<Rightarrow> 's variance \<Rightarrow> bool" where
  "cache_ok A vt v =
     (recalculate v \<or> counter v = 0
      \<or> variance_value v = compute_variance A vt (counter v) (sum_of_squares v) (sum_val v))"

definition sd_cache_ok :: "('i, 's) arith \<Rightarrow> bool \<Rightarrow> 's standard_deviation \<Rightarrow> bool" where
  "sd_cache_ok A vt v =
     ((sd_recalculate v \<or> sd_counter v = 0
       \<or> sd_variance_value v =
           sd_compute_variance A vt (sd_counter v) (sd_sum_of_squares v) (sd_sum_val v))
      \<and> standard_deviation_value v =
          (if fgt0 (sd_variance_value v) then fsqrt Double (sd_variance_value v)
           else fp_zero))"

text \<open>The stored sums are values of the floating-point type \<open>t\<close>.\<close>

definition sums_in_format :: "ftype \<Rightarrow> (fp, 'z) variance_traits_scheme \<Rightarrow> bool" where
  "sums_in_format t v = (in_format t (sum_of_squares v) \<and> in_format t (sum_val v))"

definition sd_sums_in_format ::
  "ftype \<Rightarrow> (fp, 'z) standard_deviation_traits_scheme \<Rightarrow> bool" where
  "sd_sums_in_format t v = (in_format t (sd_sum_of_squares v) \<and> in_format t (sd_sum_val v))"

section \<open>Rounding yields values of the type\<close>

lemma bitlen_0: "bitlen 0 = 0"
  by (simp add: bitlen.simps)

lemma bitlen_pos: "m \<noteq> 0 \<Longrightarrow> bitlen m = Suc (bitlen (m div 2))"
  by (subst bitlen.simps) simp

lemma bitlen_less: "m < 2 ^ bitlen m"
proof (induction m rule: bitlen.induct)
  case (1 n)
  show ?case
  proof (cases "n = 0")
    case True
    then show ?thesis by (simp add: bitlen_0)
  next
    case False
    with 1 have "n div 2 < 2 ^ bitlen (n div 2)" by simp
    then have "n < 2 * 2 ^ bitlen (n div 2)" by linarith
    with False show ?thesis by (simp add: bitlen_pos)
  qed
qed

lemma bitlen_le: "m < 2 ^ k \<Longrightarrow> bitlen m \<le> k"
proof (induction k arbitrary: m)
  case 0
  then show ?case by (simp add: bitlen_0)
next
  case (Suc k)
  show ?case
  proof (cases "m = 0")
    case True
    then show ?thesis by (simp add: bitlen_0)
  next
    case False
    from Suc.prems have "m div 2 < 2 ^ k" by simp
    then have "bitlen (m div 2) \<le> k" by (rule Suc.IH)
    with False show ?thesis by (simp add: bitlen_pos)
  qed
qed

lemma norm_odd_odd: "odd m \<Longrightarrow> norm_odd m e = (m, e)"
  by (subst norm_odd.simps) auto

lemma norm_odd_spec:
  "m \<noteq> 0 \<Longrightarrow> norm_odd m e = (m', e') \<Longrightarrow>
   odd m' \<and> m' \<le> m \<and> e \<le> e' \<and> int (bitlen m') + e' = int (bitlen m) + e"
proof (induction m e rule: norm_odd.induct)
  case (1 m e)
  show ?case
  proof (cases "even m")
    case True
    with "1.prems" have nz: "m div 2 \<noteq> 0" by auto
    from True "1.prems" have "norm_odd (m div 2) (e + 1) = (m', e')"
      by (subst (asm) norm_odd.simps) simp
    with "1.IH" "1.prems"(1) True nz
    have "odd m' \<and> m' \<le> m div 2 \<and> e + 1 \<le> e'
          \<and> int (bitlen m') + e' = int (bitlen (m div 2)) + (e + 1)"
      by simp
    then have *: "odd m'" "m' \<le> m div 2" "e + 1 \<le> e'"
      "int (bitlen m') + e' = int (bitlen (m div 2)) + (e + 1)" by simp_all
    from *(2) have "m' \<le> m" by (rule order_trans) (rule div_le_dividend)
    with * "1.prems"(1) show ?thesis by (simp add: bitlen_pos)
  next
    case False
    with "1.prems" show ?thesis by (simp add: norm_odd_odd)
  qed
qed

lemma prec_pos: "0 < prec t"
  by (cases t) simp_all


lemma in_format_pack:
  assumes "m \<le> 2 ^ prec t" and "m \<noteq> 0 \<Longrightarrow> emin t \<le> e"
  shows "in_format t (pack t s m e)"
proof (cases "m = 0 \<or> int (bitlen m) + e > int (prec t) + emax t")
  case True
  then show ?thesis by (auto simp add: pack_def)
next
  case False
  obtain m' e' where ne: "norm_odd m e = (m', e')" by (cases "norm_odd m e")
  from False have "m \<noteq> 0" by simp
  from norm_odd_spec [OF this ne]
  have spec: "odd m'" "m' \<le> m" "e \<le> e'" "int (bitlen m') + e' = int (bitlen m) + e"
    by simp_all
  from spec(1) have "m' \<noteq> 2 ^ prec t" using prec_pos [of t] by (cases "prec t") auto
  with spec(2) assms(1) have "m' < 2 ^ prec t" by simp
  then have "bitlen m' \<le> prec t" by (rule bitlen_le)
  moreover from spec(1) have "m' \<noteq> 0" by (cases "m' = 0") simp_all
  ultimately show ?thesis
    using False ne spec assms(2) by (simp add: pack_def)
qed

lemma in_format_round_fp: "in_format t (round_fp t s m e)"
proof -
  define e' where "e' = max (emin t) (e + int (bitlen m) - int (prec t))"
  show ?thesis
  proof (cases "e' \<le> e")
    case True
    then have "bitlen m \<le> prec t" "emin t \<le> e" by (simp_all add: e'_def)
    have "(2::nat) ^ bitlen m \<le> 2 ^ prec t"
      using \<open>bitlen m \<le> prec t\<close> by (intro power_increasing) simp_all
    with bitlen_less [of m] have "m \<le> 2 ^ prec t" by linarith
    with True \<open>emin t \<le> e\<close> show ?thesis
      by (simp add: round_fp_def Let_def e'_def [symmetric] in_format_pack)
  next
    case False
    define d where "d = nat (e' - e)"
    from False have d: "int d = e' - e" "0 < d" by (simp_all add: d_def)
    have "bitlen m \<le> prec t + d" using d by (simp add: e'_def)
    then have "(2::nat) ^ bitlen m \<le> 2 ^ (prec t + d)"
      by (intro power_increasing) simp_all
    with bitlen_less [of m] have "m < 2 ^ (prec t + d)" by linarith
    then have "m div 2 ^ d < 2 ^ prec t"
      by (simp add: power_add less_mult_imp_div_less)
    then have q: "m div 2 ^ d \<le> 2 ^ prec t" "m div 2 ^ d + 1 \<le> 2 ^ prec t" by simp_all
    have "emin t \<le> e'" by (simp add: e'_def)
    with False q show ?thesis
      by (simp add: round_fp_def Let_def e'_def [symmetric] d_def [symmetric] in_format_pack)
  qed
qed

lemma in_format_fconv: "in_format t (fconv t x)"
  by (cases x) (simp_all add: in_format_round_fp)

lemma in_format_fadd: "in_format t (fadd t a b)"
  by (cases a; cases b) (simp_all add: in_format_round_fp Let_def)



section \<open>Evaluation on numerals\<close>

lemma bitlen_numeral:
  "bitlen 0 = 0" "bitlen 1 = 1" "bitlen (Suc 0) = 1"
  "bitlen (numeral (Num.Bit0 k)) = Suc (bitlen (numeral k))"
  "bitlen (numeral (Num.Bit1 k)) = Suc (bitlen (numeral k))"
  "bitlen (numeral Num.One) = 1"
  by (subst bitlen.simps, simp add: bitlen_0)+

lemma norm_odd_numeral:
  "norm_odd 0 e = (0, 0)" "norm_odd 1 e = (1, e)" "norm_odd (Suc 0) e = (Suc 0, e)"
  "norm_odd (numeral (Num.Bit0 k)) e = norm_odd (numeral k) (e + 1)"
  "norm_odd (numeral (Num.Bit1 k)) e = (numeral (Num.Bit1 k), e)"
  "norm_odd (numeral Num.One) e = (1, e)"
  by (subst norm_odd.simps, simp)+

lemma isqrt_rec:
  "2 \<le> n \<Longrightarrow>
   isqrt n = (let r = 2 * isqrt (n div 2 div 2)
              in if (r + 1) * (r + 1) \<le> n then r + 1 else r)"
proof -
  assume "2 \<le> n"
  moreover have "n div 4 = n div 2 div 2" by simp
  ultimately show ?thesis by (subst isqrt.simps) simp
qed

lemma isqrt_numeral:
  "isqrt 0 = 0" "isqrt 1 = 1" "isqrt (Suc 0) = Suc 0"
  "isqrt (numeral Num.One) = 1"
  "isqrt (numeral (Num.Bit0 Num.One)) = 1"
  "isqrt (numeral (Num.Bit1 Num.One)) = 1"
  "isqrt (numeral (Num.Bit0 (Num.Bit0 k))) =
     (let r = 2 * isqrt (numeral k)
      in if (r + 1) * (r + 1) \<le> numeral (Num.Bit0 (Num.Bit0 k)) then r + 1 else r)"
  "isqrt (numeral (Num.Bit1 (Num.Bit0 k))) =
     (let r = 2 * isqrt (numeral k)
      in if (r + 1) * (r + 1) \<le> numeral (Num.Bit1 (Num.Bit0 k)) then r + 1 else r)"
  "isqrt (numeral (Num.Bit0 (Num.Bit1 k))) =
     (let r = 2 * isqrt (numeral k)
      in if (r + 1) * (r + 1) \<le> numeral (Num.Bit0 (Num.Bit1 k)) then r + 1 else r)"
  "isqrt (numeral (Num.Bit1 (Num.Bit1 k))) =
     (let r = 2 * isqrt (numeral k)
      in if (r + 1) * (r + 1) \<le> numeral (Num.Bit1 (Num.Bit1 k)) then r + 1 else r)"
  by (simp_all add: isqrt_rec) (subst isqrt.simps, simp)+

lemmas fp_eval =
  fp_one_def fp_zero_def double_of_uint32_def double_of_int_def round_fp_def pack_def
  fsub_def signed_int_def Let_def bitlen_numeral norm_odd_numeral isqrt_numeral

lemmas instance_eval = fp_arith_def uint32_arith_def uint8_arith_def

lemmas variance_eval =
  run_def variance_new_def add_def get_variance_def compute_variance_def clear_def
  Adjustment_def Population_def Sample_def variance_new_range_def operator_double_def
  call_def call_range_def variance_count_def

lemmas sd_eval =
  sd_run_def standard_deviation_new_def sd_add_def calculate_def sd_get_variance_def
  get_standard_deviation_def sd_compute_variance_def sd_clear_def sd_Adjustment_def
  sd_Population_def sd_Sample_def standard_deviation_new_range_def sd_operator_double_def
  sd_call_def sd_call_range_def sd_count_def

section \<open>The cache\<close>

lemma cache_ok_new: "cache_ok A vt (variance_new A)"
  by (simp add: cache_ok_def variance_new_def)

lemma cache_ok_add: "cache_ok A vt (add A v x)"
  by (simp add: cache_ok_def add_def)

lemma cache_ok_add_range: "cache_ok A vt v \<Longrightarrow> cache_ok A vt (add_range A v xs)"
  by (induction xs arbitrary: v) (simp_all add: cache_ok_add)

lemma cache_ok_clear: "cache_ok A vt (clear A v)"
  by (simp add: cache_ok_def clear_def)

lemma cache_ok_get_variance: "cache_ok A vt v \<Longrightarrow> cache_ok A vt (snd (get_variance A vt v))"
  by (auto simp add: cache_ok_def get_variance_def Let_def)

lemma cache_ok_exec: "cache_ok A vt v \<Longrightarrow> cache_ok A vt (exec A vt v c)"
  by (cases c)
    (simp_all add: cache_ok_add cache_ok_add_range cache_ok_clear cache_ok_get_variance
       call_def call_range_def operator_double_def)

lemma cache_ok_foldl: "cache_ok A vt v \<Longrightarrow> cache_ok A vt (foldl (exec A vt) v cs)"
  by (induction cs arbitrary: v) (simp_all add: cache_ok_exec)

lemma cache_ok_run: "cache_ok A vt (run A vt cs)"
  unfolding run_def by (rule cache_ok_foldl) (rule cache_ok_new)

lemma get_variance_cache_ok:
  "cache_ok A vt v \<Longrightarrow> counter v \<noteq> 0 \<Longrightarrow>
   fst (get_variance A vt v) = compute_variance A vt (counter v) (sum_of_squares v) (sum_val v)"
  by (auto simp add: cache_ok_def get_variance_def Let_def)

lemma sd_cache_ok_new: "sd_cache_ok A vt (standard_deviation_new A)"
  by (simp add: sd_cache_ok_def standard_deviation_new_def fp_zero_def)

lemma sd_cache_ok_add: "sd_cache_ok A vt v \<Longrightarrow> sd_cache_ok A vt (sd_add A v x)"
  by (simp add: sd_cache_ok_def sd_add_def)

lemma sd_cache_ok_add_range: "sd_cache_ok A vt v \<Longrightarrow> sd_cache_ok A vt (sd_add_range A v xs)"
  by (induction xs arbitrary: v) (simp_all add: sd_cache_ok_add)

lemma sd_cache_ok_clear: "sd_cache_ok A vt v \<Longrightarrow> sd_cache_ok A vt (sd_clear A v)"
  by (simp add: sd_cache_ok_def sd_clear_def)

lemma sd_cache_ok_calculate: "sd_cache_ok A vt v \<Longrightarrow> sd_cache_ok A vt (calculate A vt v)"
  by (auto simp add: sd_cache_ok_def calculate_def Let_def fp_zero_def)

lemma sd_cache_ok_exec: "sd_cache_ok A vt v \<Longrightarrow> sd_cache_ok A vt (sd_exec A vt v c)"
  by (cases c)
    (simp_all add: sd_cache_ok_add sd_cache_ok_add_range sd_cache_ok_clear
       sd_cache_ok_calculate sd_call_def sd_call_range_def sd_operator_double_def
       sd_get_variance_def get_standard_deviation_def Let_def)

lemma sd_cache_ok_foldl:
  "sd_cache_ok A vt v \<Longrightarrow> sd_cache_ok A vt (foldl (sd_exec A vt) v cs)"
  by (induction cs arbitrary: v) (simp_all add: sd_cache_ok_exec)

lemma sd_cache_ok_run: "sd_cache_ok A vt (sd_run A vt cs)"
  unfolding sd_run_def by (rule sd_cache_ok_foldl) (rule sd_cache_ok_new)

lemma sd_get_variance_cache_ok:
  "sd_cache_ok A vt v \<Longrightarrow> sd_counter v \<noteq> 0 \<Longrightarrow>
   fst (sd_get_variance A vt v) =
     sd_compute_variance A vt (sd_counter v) (sd_sum_of_squares v) (sd_sum_val v)"
  by (auto simp add: sd_cache_ok_def sd_get_variance_def calculate_def Let_def)

lemma get_standard_deviation_cache_ok:
  "sd_cache_ok A vt v \<Longrightarrow>
   fst (get_standard_deviation A vt v) =
     (if fgt0 (fst (sd_get_variance A vt v)) then fsqrt Double (fst (sd_get_variance A vt v))
      else fp_zero)"
  using sd_cache_ok_calculate [of A vt v]
  by (simp add: sd_cache_ok_def sd_get_variance_def get_standard_deviation_def Let_def)

lemma calculate_idem: "calculate A vt (calculate A vt v) = calculate A vt v"
  by (simp add: calculate_def Let_def)

lemma get_variance_idem:
  "get_variance A vt (snd (get_variance A vt v)) =
     (fst (get_variance A vt v), snd (get_variance A vt v))"
  by (simp add: get_variance_def Let_def)

lemma fle0_not_fgt0: "fle0 x \<Longrightarrow> \<not> fgt0 x"
  by (cases x) auto

lemma pack_sign: "fge0 (pack t False m e)"
  by (simp add: pack_def split: prod.splits)

lemma round_fp_sign: "fge0 (round_fp t False m e)"
  by (simp add: round_fp_def Let_def pack_sign)

lemma fsqrt_fge0: "fgt0 x \<Longrightarrow> fge0 (fsqrt t x)"
  by (cases x) (simp_all add: Let_def round_fp_sign)

lemma fmul_Infty_not_finite: "\<not> is_finite (fmul t x (Infty s))"
  by (cases x) simp_all

lemma sample_adjustment:
  "fdiv Double fp_one
     (fmul Double (double_of_uint32 1)
        (fsub Double (double_of_uint32 1) (double_of_int 1))) = Infty False"
  by (simp add: fp_eval)

section \<open>The counter\<close>

lemma counter_add_range: "counter (add_range A v xs) = counter v + of_nat (length xs)"
  by (induction xs arbitrary: v) (simp_all add: add_def)

lemma sd_counter_add_range:
  "sd_counter (sd_add_range A v xs) = sd_counter v + of_nat (length xs)"
  by (induction xs arbitrary: v) (simp_all add: sd_add_def)

lemma add_range_foldl: "add_range A v xs = foldl (add A) v xs"
  by (induction xs arbitrary: v) simp_all

lemma sd_add_range_foldl: "sd_add_range A v xs = foldl (sd_add A) v xs"
  by (induction xs arbitrary: v) simp_all

lemma counter_get_variance: "counter (snd (get_variance A vt v)) = counter v"
  by (simp add: get_variance_def Let_def)

lemma sd_counter_calculate: "sd_counter (calculate A vt v) = sd_counter v"
  by (simp add: calculate_def Let_def)

lemma counter_exec:
  "counter v = of_nat k \<Longrightarrow> counter (exec A vt v c) = of_nat (added k c)"
  by (cases c)
    (simp_all add: counter_add_range call_def call_range_def operator_double_def
       clear_def counter_get_variance add_def)

lemma sd_counter_exec:
  "sd_counter v = of_nat k \<Longrightarrow> sd_counter (sd_exec A vt v c) = of_nat (sd_added k c)"
  by (cases c)
    (simp_all add: sd_counter_add_range sd_call_def sd_call_range_def sd_operator_double_def
       sd_get_variance_def get_standard_deviation_def Let_def
       sd_clear_def sd_counter_calculate sd_add_def)

lemma counter_foldl_exec:
  "counter v = of_nat k \<Longrightarrow> counter (foldl (exec A vt) v cs) = of_nat (foldl added k cs)"
  by (induction cs arbitrary: v k) (simp_all add: counter_exec)

lemma sd_counter_foldl_exec:
  "sd_counter v = of_nat k \<Longrightarrow>
   sd_counter (foldl (sd_exec A vt) v cs) = of_nat (foldl sd_added k cs)"
  by (induction cs arbitrary: v k) (simp_all add: sd_counter_exec)

lemma counter_run: "counter (run A vt cs) = of_nat (foldl added 0 cs)"
  unfolding run_def by (rule counter_foldl_exec) (simp add: variance_new_def)

lemma sd_counter_run: "sd_counter (sd_run A vt cs) = of_nat (foldl sd_added 0 cs)"
  unfolding sd_run_def by (rule sd_counter_foldl_exec) (simp add: standard_deviation_new_def)

text \<open>
  C5, as stated: after adding \<open>k\<close> values since construction or the last \<open>clear\<close>, by
  any mix of single-value and range calls, \<open>count()\<close> is \<open>k\<close>. It fails for
  \<open>k = 2^32\<close>: a range of 4294967296 values added to a new \<open>variance<..., uint32_t>\<close>
  leaves \<open>count()\<close> different from 4294967296.
\<close>

theorem count_wraps_counterexample:
  "foldl added 0 [Add_range (replicate 4294967296 (1::32 word))] = 4294967296
   \<and> variance_count (run uint32_arith Population [Add_range (replicate 4294967296 1)])
       \<noteq> 4294967296"
  by (simp add: counter_run variance_count_def)

text \<open>
  C5, amended: after any sequence of calls, \<open>count()\<close> of either accumulator is the
  number of values added since construction or the last \<open>clear\<close>, modulo \<open>2^32\<close> (so it
  is that number when fewer than \<open>2^32\<close> values were added), and after \<open>clear()\<close> it
  is 0.
\<close>

theorem count_is_added_mod:
  "variance_count (run A vt cs) = foldl added 0 cs mod 2 ^ 32
   \<and> sd_count (sd_run A vt' ds) = foldl sd_added 0 ds mod 2 ^ 32
   \<and> variance_count (clear A v) = 0 \<and> sd_count (sd_clear A w) = 0"
  by (simp add: counter_run sd_counter_run variance_count_def sd_count_def clear_def
      sd_clear_def unat_of_nat)

text \<open>
  C10: the counter is a 32-bit unsigned integer incremented without a check: \<open>count()\<close>
  after single-value adds is the former count plus their number, modulo \<open>2^32\<close>, and
  after exactly \<open>2^32\<close> single-value adds since a \<open>clear\<close> it is 0 again.
\<close>

theorem counter_wraps:
  "variance_count (add_each A v xs) = (variance_count v + length xs) mod 2 ^ 32
   \<and> sd_count (sd_add_each A w xs) = (sd_count w + length xs) mod 2 ^ 32
   \<and> (length xs = 2 ^ 32 \<longrightarrow>
        variance_count (add_each A (clear A v) xs) = 0
        \<and> sd_count (sd_add_each A (sd_clear A w) xs) = 0)"
  by (simp add: add_each_def sd_add_each_def add_range_foldl [symmetric]
      sd_add_range_foldl [symmetric] counter_add_range sd_counter_add_range
      variance_count_def sd_count_def clear_def sd_clear_def
      unat_word_ariths unat_of_nat mod_simps)

theorem counter_wraps_witness:
  "length (replicate (2 ^ 32) (1::32 word)) = 2 ^ 32
   \<and> variance_count
         (add_each uint32_arith (clear uint32_arith (variance_new uint32_arith))
            (replicate (2 ^ 32) 1)) = 0
   \<and> sd_count
         (sd_add_each uint32_arith
            (sd_clear uint32_arith (standard_deviation_new uint32_arith))
            (replicate (2 ^ 32) 1)) = 0"
  using counter_wraps [of uint32_arith "variance_new uint32_arith" "replicate (2 ^ 32) 1"
      "standard_deviation_new uint32_arith"]
  by simp

section \<open>The range operations\<close>

text \<open>
  C7: the range \<open>add(first, last)\<close> leaves the accumulator in the state reached by the
  single-value \<open>add\<close> applied to each element in sequence order, and the range
  constructor is the default constructor followed by that repeated \<open>add\<close>; the same
  for \<open>operator()\<close> on a range, and for both accumulators.
\<close>

theorem range_add_is_repeated_add:
  "add_range A v xs = add_each A v xs
   \<and> variance_new_range A xs = add_each A (variance_new A) xs
   \<and> call_range A v xs = add_each A v xs
   \<and> sd_add_range A w xs = sd_add_each A w xs
   \<and> standard_deviation_new_range A xs = sd_add_each A (standard_deviation_new A) xs
   \<and> sd_call_range A w xs = sd_add_each A w xs"
  by (simp add: add_each_def sd_add_each_def add_range_foldl sd_add_range_foldl
      variance_new_range_def standard_deviation_new_range_def call_range_def
      sd_call_range_def)

section \<open>One observation, sample variant\<close>

lemma unat_eq_1: "unat (w::32 word) = 1 \<Longrightarrow> w = 1"
  by (simp add: word_unat_eq_iff)

lemma compute_variance_sample_1:
  "compute_variance A Sample 1 ssq sm =
     fmul Double
       (fsub Double (fmul Double (double_of_uint32 1) (to_double A ssq)) (square_to_double A sm))
       (Infty False)"
  using sample_adjustment
  by (simp add: compute_variance_def Adjustment_def Sample_def Population_def Let_def)

lemma sd_compute_variance_sample_1:
  "sd_compute_variance A sd_Sample 1 ssq sm =
     fmul Double
       (fsub Double (fmul Double (double_of_uint32 1) (to_double A ssq)) (square_to_double A sm))
       (Infty False)"
  using sample_adjustment
  by (simp add: sd_compute_variance_def sd_Adjustment_def sd_Sample_def sd_Population_def Let_def)

text \<open>
  C4: with the sample variant and exactly one observation, \<open>get_variance()\<close> of either
  accumulator is not a finite \<open>double\<close>: the adjustment \<open>1 / (n * (n - 1))\<close> is a
  division by zero, an infinity, and its product with any \<open>double\<close> is an infinity or a
  NaN. Nothing replaces the result.
\<close>

theorem sample_of_one_not_finite:
  "(variance_count (run A Sample cs) = 1 \<longrightarrow>
      \<not> is_finite (fst (get_variance A Sample (run A Sample cs))))
   \<and> (sd_count (sd_run A sd_Sample ds) = 1 \<longrightarrow>
      \<not> is_finite (fst (sd_get_variance A sd_Sample (sd_run A sd_Sample ds))))"
proof (intro conjI impI)
  assume "variance_count (run A Sample cs) = 1"
  then have c: "counter (run A Sample cs) = 1"
    by (simp add: variance_count_def unat_eq_1)
  then have "fst (get_variance A Sample (run A Sample cs)) =
      compute_variance A Sample 1 (sum_of_squares (run A Sample cs)) (sum_val (run A Sample cs))"
    using get_variance_cache_ok [OF cache_ok_run, of A Sample cs] by simp
  then show "\<not> is_finite (fst (get_variance A Sample (run A Sample cs)))"
    by (simp add: compute_variance_sample_1 fmul_Infty_not_finite)
next
  assume "sd_count (sd_run A sd_Sample ds) = 1"
  then have c: "sd_counter (sd_run A sd_Sample ds) = 1"
    by (simp add: sd_count_def unat_eq_1)
  then have "fst (sd_get_variance A sd_Sample (sd_run A sd_Sample ds)) =
      sd_compute_variance A sd_Sample 1 (sd_sum_of_squares (sd_run A sd_Sample ds))
        (sd_sum_val (sd_run A sd_Sample ds))"
    using sd_get_variance_cache_ok [OF sd_cache_ok_run, of A sd_Sample ds] by simp
  then show "\<not> is_finite (fst (sd_get_variance A sd_Sample (sd_run A sd_Sample ds)))"
    by (simp add: sd_compute_variance_sample_1 fmul_Infty_not_finite)
qed

theorem sample_of_one_not_finite_witness:
  "variance_count (run (fp_arith Double Double) Sample [Add (Fin False 5 0)]) = 1
   \<and> \<not> is_finite (fst (get_variance (fp_arith Double Double) Sample
          (run (fp_arith Double Double) Sample [Add (Fin False 5 0)])))
   \<and> sd_count (sd_run (fp_arith Double Double) sd_Sample [Sd_add (Fin False 5 0)]) = 1
   \<and> \<not> is_finite (fst (sd_get_variance (fp_arith Double Double) sd_Sample
          (sd_run (fp_arith Double Double) sd_Sample [Sd_add (Fin False 5 0)])))"
proof -
  have h1: "variance_count (run (fp_arith Double Double) Sample [Add (Fin False 5 0)]) = 1"
    by (simp add: variance_count_def counter_run)
  have h2: "sd_count (sd_run (fp_arith Double Double) sd_Sample [Sd_add (Fin False 5 0)]) = 1"
    by (simp add: sd_count_def sd_counter_run)
  from h1 h2 sample_of_one_not_finite [of "fp_arith Double Double" "[Add (Fin False 5 0)]"
      "[Sd_add (Fin False 5 0)]"]
  show ?thesis by blast
qed

section \<open>Reading twice\<close>

lemma sd_getters_dirty:
  "sd_get_variance A vt (w\<lparr>sd_recalculate := True\<rparr>) =
     (let x = (if sd_counter w = 0 then fp_zero
               else sd_compute_variance A vt (sd_counter w) (sd_sum_of_squares w)
                      (sd_sum_val w));
          y = (if fgt0 x then fsqrt Double x else fp_zero)
      in (x, w\<lparr>sd_variance_value := x, standard_deviation_value := y,
               sd_recalculate := False\<rparr>))"
  "get_standard_deviation A vt (w\<lparr>sd_recalculate := True\<rparr>) =
     (let x = (if sd_counter w = 0 then fp_zero
               else sd_compute_variance A vt (sd_counter w) (sd_sum_of_squares w)
                      (sd_sum_val w));
          y = (if fgt0 x then fsqrt Double x else fp_zero)
      in (y, w\<lparr>sd_variance_value := x, standard_deviation_value := y,
               sd_recalculate := False\<rparr>))"
  by (simp_all add: sd_get_variance_def get_standard_deviation_def calculate_def Let_def
      fp_zero_def)

lemma sd_getters_clean:
  "sd_get_variance A vt (w\<lparr>sd_recalculate := False\<rparr>) =
     (sd_variance_value w, w\<lparr>sd_recalculate := False\<rparr>)"
  "get_standard_deviation A vt (w\<lparr>sd_recalculate := False\<rparr>) =
     (standard_deviation_value w, w\<lparr>sd_recalculate := False\<rparr>)"
  by (simp_all add: sd_get_variance_def get_standard_deviation_def calculate_def Let_def)

text \<open>
  C6: a getter called again, with no call between, returns the value it returned before
  and leaves the accumulator as it is; this holds of \<open>get_variance\<close>, of
  \<open>get_standard_deviation\<close> and of the conversion to \<open>double\<close>, of both accumulators
  and on every state. Each of these getters, read on an accumulator marked for
  recalculation, computes the results from the sums, caches them, removes the mark and
  returns the computed value; read on one not marked, it returns the cached value and
  changes nothing.
\<close>

theorem getters_idempotent:
  "get_variance A vt (snd (get_variance A vt v)) =
     (fst (get_variance A vt v), snd (get_variance A vt v))
   \<and> operator_double A vt (snd (operator_double A vt v)) =
     (fst (operator_double A vt v), snd (operator_double A vt v))
   \<and> sd_get_variance A vt (snd (sd_get_variance A vt w)) =
     (fst (sd_get_variance A vt w), snd (sd_get_variance A vt w))
   \<and> get_standard_deviation A vt (snd (get_standard_deviation A vt w)) =
     (fst (get_standard_deviation A vt w), snd (get_standard_deviation A vt w))
   \<and> sd_operator_double A vt (snd (sd_operator_double A vt w)) =
     (fst (sd_operator_double A vt w), snd (sd_operator_double A vt w))
   \<and> get_variance A vt (v\<lparr>recalculate := True\<rparr>) =
     (let x = (if counter v = 0 then fp_zero
               else compute_variance A vt (counter v) (sum_of_squares v) (sum_val v))
      in (x, v\<lparr>variance_value := x, recalculate := False\<rparr>))
   \<and> get_variance A vt (v\<lparr>recalculate := False\<rparr>) =
     (variance_value v, v\<lparr>recalculate := False\<rparr>)
   \<and> calculate A vt (w\<lparr>sd_recalculate := True\<rparr>) =
     (let x = (if sd_counter w = 0 then fp_zero
               else sd_compute_variance A vt (sd_counter w) (sd_sum_of_squares w)
                      (sd_sum_val w))
      in w\<lparr>sd_variance_value := x,
           standard_deviation_value := (if fgt0 x then fsqrt Double x else fp_zero),
           sd_recalculate := False\<rparr>)
   \<and> calculate A vt (w\<lparr>sd_recalculate := False\<rparr>) = w\<lparr>sd_recalculate := False\<rparr>
   \<and> operator_double A vt (v\<lparr>recalculate := True\<rparr>) =
     (let x = (if counter v = 0 then fp_zero
               else compute_variance A vt (counter v) (sum_of_squares v) (sum_val v))
      in (x, v\<lparr>variance_value := x, recalculate := False\<rparr>))
   \<and> operator_double A vt (v\<lparr>recalculate := False\<rparr>) =
     (variance_value v, v\<lparr>recalculate := False\<rparr>)
   \<and> sd_get_variance A vt (w\<lparr>sd_recalculate := True\<rparr>) =
     (let x = (if sd_counter w = 0 then fp_zero
               else sd_compute_variance A vt (sd_counter w) (sd_sum_of_squares w)
                      (sd_sum_val w));
          y = (if fgt0 x then fsqrt Double x else fp_zero)
      in (x, w\<lparr>sd_variance_value := x, standard_deviation_value := y,
               sd_recalculate := False\<rparr>))
   \<and> sd_get_variance A vt (w\<lparr>sd_recalculate := False\<rparr>) =
     (sd_variance_value w, w\<lparr>sd_recalculate := False\<rparr>)
   \<and> get_standard_deviation A vt (w\<lparr>sd_recalculate := True\<rparr>) =
     (let x = (if sd_counter w = 0 then fp_zero
               else sd_compute_variance A vt (sd_counter w) (sd_sum_of_squares w)
                      (sd_sum_val w));
          y = (if fgt0 x then fsqrt Double x else fp_zero)
      in (y, w\<lparr>sd_variance_value := x, standard_deviation_value := y,
               sd_recalculate := False\<rparr>))
   \<and> get_standard_deviation A vt (w\<lparr>sd_recalculate := False\<rparr>) =
     (standard_deviation_value w, w\<lparr>sd_recalculate := False\<rparr>)
   \<and> sd_operator_double A vt (w\<lparr>sd_recalculate := True\<rparr>) =
     (let x = (if sd_counter w = 0 then fp_zero
               else sd_compute_variance A vt (sd_counter w) (sd_sum_of_squares w)
                      (sd_sum_val w));
          y = (if fgt0 x then fsqrt Double x else fp_zero)
      in (y, w\<lparr>sd_variance_value := x, standard_deviation_value := y,
               sd_recalculate := False\<rparr>))
   \<and> sd_operator_double A vt (w\<lparr>sd_recalculate := False\<rparr>) =
     (standard_deviation_value w, w\<lparr>sd_recalculate := False\<rparr>)"
proof -
  have dirty: "get_variance A vt (v\<lparr>recalculate := True\<rparr>) =
     (let x = (if counter v = 0 then fp_zero
               else compute_variance A vt (counter v) (sum_of_squares v) (sum_val v))
      in (x, v\<lparr>variance_value := x, recalculate := False\<rparr>))"
    by (simp add: get_variance_def Let_def)
  have clean: "get_variance A vt (v\<lparr>recalculate := False\<rparr>) =
     (variance_value v, v\<lparr>recalculate := False\<rparr>)"
    by (simp add: get_variance_def)
  have calc_dirty: "calculate A vt (w\<lparr>sd_recalculate := True\<rparr>) =
     (let x = (if sd_counter w = 0 then fp_zero
               else sd_compute_variance A vt (sd_counter w) (sd_sum_of_squares w)
                      (sd_sum_val w))
      in w\<lparr>sd_variance_value := x,
           standard_deviation_value := (if fgt0 x then fsqrt Double x else fp_zero),
           sd_recalculate := False\<rparr>)"
    by (simp add: calculate_def Let_def fp_zero_def)
  have calc_clean: "calculate A vt (w\<lparr>sd_recalculate := False\<rparr>) = w\<lparr>sd_recalculate := False\<rparr>"
    by (simp add: calculate_def)
  have idem: "sd_get_variance A vt (snd (sd_get_variance A vt w)) =
     (fst (sd_get_variance A vt w), snd (sd_get_variance A vt w))"
    "get_standard_deviation A vt (snd (get_standard_deviation A vt w)) =
     (fst (get_standard_deviation A vt w), snd (get_standard_deviation A vt w))"
    by (simp_all add: sd_get_variance_def get_standard_deviation_def calculate_idem Let_def)
  show ?thesis
    unfolding operator_double_def sd_operator_double_def
    by (intro conjI get_variance_idem idem dirty clean calc_dirty calc_clean
        sd_getters_dirty sd_getters_clean)
qed


section \<open>The formula of the variance\<close>

lemma traits_storage_input: "traits_storage TInput TCalc = TInput"
  by (cases TInput) simp_all

lemma sums_in_format_new:
  "sums_in_format (traits_storage TInput TCalc) (variance_new (fp_arith TInput TCalc))"
  by (simp add: sums_in_format_def variance_new_def fp_arith_def Let_def in_format_fconv)

lemma sums_in_format_add:
  "sums_in_format (traits_storage TInput TCalc) (add (fp_arith TInput TCalc) v x)"
  by (simp add: sums_in_format_def add_def fp_arith_def Let_def in_format_fconv)

lemma sums_in_format_add_range:
  "sums_in_format (traits_storage TInput TCalc) v \<Longrightarrow>
   sums_in_format (traits_storage TInput TCalc) (add_range (fp_arith TInput TCalc) v xs)"
  by (induction xs arbitrary: v) (simp_all add: sums_in_format_add)

lemma sums_in_format_get_variance:
  "sums_in_format t (snd (get_variance A vt v)) = sums_in_format t v"
  by (simp add: sums_in_format_def get_variance_def Let_def)

lemma sums_in_format_clear:
  "sums_in_format (traits_storage TInput TCalc) (clear (fp_arith TInput TCalc) v)"
  by (simp add: sums_in_format_def clear_def fp_arith_def Let_def in_format_fconv)

lemma sums_in_format_exec:
  "sums_in_format (traits_storage TInput TCalc) v \<Longrightarrow>
   sums_in_format (traits_storage TInput TCalc) (exec (fp_arith TInput TCalc) vt v c)"
  by (cases c)
    (simp_all add: sums_in_format_add sums_in_format_add_range sums_in_format_get_variance
       sums_in_format_clear call_def call_range_def operator_double_def)

lemma sums_in_format_foldl:
  "sums_in_format (traits_storage TInput TCalc) v \<Longrightarrow>
   sums_in_format (traits_storage TInput TCalc)
     (foldl (exec (fp_arith TInput TCalc) vt) v cs)"
  by (induction cs arbitrary: v) (simp_all add: sums_in_format_exec)

lemma sums_in_format_run:
  "sums_in_format (traits_storage TInput TCalc) (run (fp_arith TInput TCalc) vt cs)"
  unfolding run_def by (rule sums_in_format_foldl) (rule sums_in_format_new)

lemma sd_sums_in_format_new:
  "sd_sums_in_format (traits_storage TInput TCalc)
     (standard_deviation_new (fp_arith TInput TCalc))"
  by (simp add: sd_sums_in_format_def standard_deviation_new_def fp_arith_def Let_def in_format_fconv)

lemma sd_sums_in_format_add:
  "sd_sums_in_format (traits_storage TInput TCalc) (sd_add (fp_arith TInput TCalc) v x)"
  by (simp add: sd_sums_in_format_def sd_add_def fp_arith_def Let_def in_format_fconv)

lemma sd_sums_in_format_add_range:
  "sd_sums_in_format (traits_storage TInput TCalc) v \<Longrightarrow>
   sd_sums_in_format (traits_storage TInput TCalc) (sd_add_range (fp_arith TInput TCalc) v xs)"
  by (induction xs arbitrary: v) (simp_all add: sd_sums_in_format_add)

lemma sd_sums_in_format_calculate:
  "sd_sums_in_format t (calculate A vt v) = sd_sums_in_format t v"
  by (simp add: sd_sums_in_format_def calculate_def Let_def)

lemma sd_sums_in_format_clear:
  "sd_sums_in_format (traits_storage TInput TCalc) (sd_clear (fp_arith TInput TCalc) v)"
  by (simp add: sd_sums_in_format_def sd_clear_def fp_arith_def Let_def in_format_fconv)

lemma sd_sums_in_format_exec:
  "sd_sums_in_format (traits_storage TInput TCalc) v \<Longrightarrow>
   sd_sums_in_format (traits_storage TInput TCalc) (sd_exec (fp_arith TInput TCalc) vt v c)"
  by (cases c)
    (simp_all add: sd_sums_in_format_add sd_sums_in_format_add_range
       sd_sums_in_format_calculate sd_sums_in_format_clear sd_call_def sd_call_range_def
       sd_operator_double_def sd_get_variance_def get_standard_deviation_def Let_def)

lemma sd_sums_in_format_foldl:
  "sd_sums_in_format (traits_storage TInput TCalc) v \<Longrightarrow>
   sd_sums_in_format (traits_storage TInput TCalc)
     (foldl (sd_exec (fp_arith TInput TCalc) vt) v cs)"
  by (induction cs arbitrary: v) (simp_all add: sd_sums_in_format_exec)

lemma sd_sums_in_format_run:
  "sd_sums_in_format (traits_storage TInput TCalc) (sd_run (fp_arith TInput TCalc) vt cs)"
  unfolding sd_run_def by (rule sd_sums_in_format_foldl) (rule sd_sums_in_format_new)
















section \<open>The standard deviation\<close>

text \<open>
  What holds of C2 on every state reached from the constructor: \<open>get_standard_deviation()\<close>
  is the square root, not negative, of the value \<open>get_variance()\<close> returns there
  whenever that value is above 0, and is 0.0 whenever it is at most 0; it is 0.0 on a
  new accumulator. The conversion to \<open>double\<close> is \<open>get_standard_deviation()\<close>.
\<close>

theorem standard_deviation_is_root:
  "(let w = sd_run A vt ds;
        var = fst (sd_get_variance A vt w);
        sd = fst (get_standard_deviation A vt w)
    in (fgt0 var \<longrightarrow> sd = fsqrt Double var \<and> fge0 sd)
       \<and> (fle0 var \<longrightarrow> sd = fp_zero))
   \<and> fst (get_standard_deviation A vt (standard_deviation_new A)) = fp_zero
   \<and> sd_operator_double A vt w = get_standard_deviation A vt w"
proof -
  have "fst (get_standard_deviation A vt (sd_run A vt ds)) =
     (if fgt0 (fst (sd_get_variance A vt (sd_run A vt ds)))
      then fsqrt Double (fst (sd_get_variance A vt (sd_run A vt ds))) else fp_zero)"
    by (rule get_standard_deviation_cache_ok) (rule sd_cache_ok_run)
  moreover have "fst (get_standard_deviation A vt (standard_deviation_new A)) = fp_zero"
    by (simp add: get_standard_deviation_def calculate_def standard_deviation_new_def Let_def)
  ultimately show ?thesis
    by (auto simp add: Let_def fsqrt_fge0 sd_operator_double_def dest: fle0_not_fgt0)
qed

theorem standard_deviation_is_root_witness:
  "fgt0 (fst (sd_get_variance (fp_arith Double Double) sd_Population
       (sd_run (fp_arith Double Double) sd_Population
          [Sd_add (Fin False 1 0), Sd_add (Fin False 3 0)])))
   \<and> fst (get_standard_deviation (fp_arith Double Double) sd_Population
       (sd_run (fp_arith Double Double) sd_Population
          [Sd_add (Fin False 1 0), Sd_add (Fin False 3 0)]))
      = fsqrt Double (fst (sd_get_variance (fp_arith Double Double) sd_Population
          (sd_run (fp_arith Double Double) sd_Population
             [Sd_add (Fin False 1 0), Sd_add (Fin False 3 0)])))
   \<and> fge0 (fst (get_standard_deviation (fp_arith Double Double) sd_Population
       (sd_run (fp_arith Double Double) sd_Population
          [Sd_add (Fin False 1 0), Sd_add (Fin False 3 0)])))
   \<and> fle0 (fst (sd_get_variance (fp_arith Double Double) sd_Population
       (sd_run (fp_arith Double Double) sd_Population [Sd_add (Fin False 5 0)])))
   \<and> fst (get_standard_deviation (fp_arith Double Double) sd_Population
       (sd_run (fp_arith Double Double) sd_Population [Sd_add (Fin False 5 0)])) = fp_zero"
proof -
  have h1: "fgt0 (fst (sd_get_variance (fp_arith Double Double) sd_Population
       (sd_run (fp_arith Double Double) sd_Population
          [Sd_add (Fin False 1 0), Sd_add (Fin False 3 0)])))"
    by (simp add: fp_eval sd_eval fp_arith_def cong: let_weak_cong)
  have h2: "fle0 (fst (sd_get_variance (fp_arith Double Double) sd_Population
       (sd_run (fp_arith Double Double) sd_Population [Sd_add (Fin False 5 0)])))"
    by (simp add: fp_eval sd_eval fp_arith_def cong: let_weak_cong)
  from h1 standard_deviation_is_root [of "fp_arith Double Double" sd_Population
      "[Sd_add (Fin False 1 0), Sd_add (Fin False 3 0)]"]
  have c1: "fst (get_standard_deviation (fp_arith Double Double) sd_Population
       (sd_run (fp_arith Double Double) sd_Population
          [Sd_add (Fin False 1 0), Sd_add (Fin False 3 0)]))
      = fsqrt Double (fst (sd_get_variance (fp_arith Double Double) sd_Population
          (sd_run (fp_arith Double Double) sd_Population
             [Sd_add (Fin False 1 0), Sd_add (Fin False 3 0)])))
    \<and> fge0 (fst (get_standard_deviation (fp_arith Double Double) sd_Population
       (sd_run (fp_arith Double Double) sd_Population
          [Sd_add (Fin False 1 0), Sd_add (Fin False 3 0)])))"
    unfolding Let_def by blast
  from h2 standard_deviation_is_root [of "fp_arith Double Double" sd_Population
      "[Sd_add (Fin False 5 0)]"]
  have c2: "fst (get_standard_deviation (fp_arith Double Double) sd_Population
       (sd_run (fp_arith Double Double) sd_Population [Sd_add (Fin False 5 0)])) = fp_zero"
    unfolding Let_def by blast
  from h1 h2 c1 c2 show ?thesis by blast
qed

text \<open>
  C2 at the input where the code departs from it, the zero-observation case after
  \<open>clear()\<close>: the values 2, 4, 4, 4, 5, 5, 7, 9 are added as a range to a population
  accumulator, \<open>get_standard_deviation()\<close> is read (2.0), and \<open>clear()\<close> is called.
  The accumulator then has zero observations (\<open>count()\<close> is 0), the variance computed for
  it would be 0.0, and \<open>get_standard_deviation()\<close> returns the cached 2.0.
\<close>

theorem stale_standard_deviation:
  "sd_count (sd_run (fp_arith Double Double) sd_Population
       [Sd_add_range [Fin False 1 1, Fin False 1 2, Fin False 1 2, Fin False 1 2,
          Fin False 5 0, Fin False 5 0, Fin False 7 0, Fin False 9 0],
        Sd_get_standard_deviation, Sd_clear]) = 0
   \<and> fst (get_standard_deviation (fp_arith Double Double) sd_Population
       (sd_run (fp_arith Double Double) sd_Population
          [Sd_add_range [Fin False 1 1, Fin False 1 2, Fin False 1 2, Fin False 1 2,
             Fin False 5 0, Fin False 5 0, Fin False 7 0, Fin False 9 0],
           Sd_get_standard_deviation, Sd_clear])) = Fin False 1 1
   \<and> fst (sd_get_variance (fp_arith Double Double) sd_Population
       (sd_run (fp_arith Double Double) sd_Population
          [Sd_add_range [Fin False 1 1, Fin False 1 2, Fin False 1 2, Fin False 1 2,
             Fin False 5 0, Fin False 5 0, Fin False 7 0, Fin False 9 0],
           Sd_get_standard_deviation, Sd_clear])) = Fin False 1 2"
  by (simp add: fp_eval sd_eval instance_eval cong: let_weak_cong)

section \<open>Clearing\<close>

text \<open>
  C3 at the input where the code departs from it: \<open>add(1.0)\<close>, \<open>add(3.0)\<close>, a read,
  \<open>clear()\<close>. The accumulator then has zero observations (\<open>count()\<close> is 0), but
  \<open>clear()\<close> has not marked it for recalculation, and \<open>get_variance()\<close> and
  \<open>get_standard_deviation()\<close> return the values cached before, 1.0, not 0.0. Without
  the read before \<open>clear()\<close>, and on a new accumulator, \<open>get_variance()\<close> is 0.0.
\<close>

theorem stale_after_clear:
  "variance_count (run (fp_arith Double Double) Population
       [Add (Fin False 1 0), Add (Fin False 3 0), Get_variance, Clear]) = 0
   \<and> fst (get_variance (fp_arith Double Double) Population
       (run (fp_arith Double Double) Population
          [Add (Fin False 1 0), Add (Fin False 3 0), Get_variance, Clear])) = Fin False 1 0
   \<and> sd_count (sd_run (fp_arith Double Double) sd_Population
       [Sd_add (Fin False 1 0), Sd_add (Fin False 3 0), Sd_get_standard_deviation, Sd_clear]) = 0
   \<and> fst (sd_get_variance (fp_arith Double Double) sd_Population
       (sd_run (fp_arith Double Double) sd_Population
          [Sd_add (Fin False 1 0), Sd_add (Fin False 3 0), Sd_get_standard_deviation, Sd_clear]))
      = Fin False 1 0
   \<and> fst (get_standard_deviation (fp_arith Double Double) sd_Population
       (sd_run (fp_arith Double Double) sd_Population
          [Sd_add (Fin False 1 0), Sd_add (Fin False 3 0), Sd_get_standard_deviation, Sd_clear]))
      = Fin False 1 0
   \<and> fst (get_variance (fp_arith Double Double) Population
       (run (fp_arith Double Double) Population
          [Add (Fin False 1 0), Add (Fin False 3 0), Clear])) = Fin False 0 0
   \<and> fst (get_variance (fp_arith Double Double) Population
       (run (fp_arith Double Double) Population [])) = Fin False 0 0"
  by (simp add: fp_eval variance_eval sd_eval fp_arith_def cong: let_weak_cong)

section \<open>The order of the values\<close>

lemma add_commute:
  assumes "\<forall>s a b. add_square A (add_square A s a) b = add_square A (add_square A s b) a"
    and "\<forall>s a b. add_value A (add_value A s a) b = add_value A (add_value A s b) a"
  shows "add A (add A v a) b = add A (add A v b) a"
  using assms by (simp add: add_def)

lemma sd_add_commute:
  assumes "\<forall>s a b. add_square A (add_square A s a) b = add_square A (add_square A s b) a"
    and "\<forall>s a b. add_value A (add_value A s a) b = add_value A (add_value A s b) a"
  shows "sd_add A (sd_add A v a) b = sd_add A (sd_add A v b) a"
  using assms by (simp add: sd_add_def)

lemma add_each_mset:
  assumes "\<forall>s a b. add_square A (add_square A s a) b = add_square A (add_square A s b) a"
    and "\<forall>s a b. add_value A (add_value A s a) b = add_value A (add_value A s b) a"
    and "mset xs = mset ys"
  shows "add_each A v xs = add_each A v ys"
proof -
  have "fold (\<lambda>x s. add A s x) xs = fold (\<lambda>x s. add A s x) ys"
    using assms(3)
    by (rule fold_multiset_equiv [rotated]) (simp add: fun_eq_iff add_commute [OF assms(1,2)])
  then show ?thesis by (simp add: add_each_def foldl_conv_fold)
qed

lemma sd_add_each_mset:
  assumes "\<forall>s a b. add_square A (add_square A s a) b = add_square A (add_square A s b) a"
    and "\<forall>s a b. add_value A (add_value A s a) b = add_value A (add_value A s b) a"
    and "mset xs = mset ys"
  shows "sd_add_each A v xs = sd_add_each A v ys"
proof -
  have "fold (\<lambda>x s. sd_add A s x) xs = fold (\<lambda>x s. sd_add A s x) ys"
    using assms(3)
    by (rule fold_multiset_equiv [rotated]) (simp add: fun_eq_iff sd_add_commute [OF assms(1,2)])
  then show ?thesis by (simp add: sd_add_each_def foldl_conv_fold)
qed

text \<open>
  C8, as stated: adding the same values in another order gives the same
  \<open>get_variance()\<close> and \<open>get_standard_deviation()\<close>. It fails in floating point, where
  every accumulation rounds: for \<open>double\<close>, the values \<open>2^53, 1, 1\<close> give the sum
  \<open>2^53\<close>, and \<open>1, 1, 2^53\<close> give \<open>2^53 + 2\<close>; the population variances and the
  standard deviations of the two orders differ.
\<close>

theorem order_counterexample:
  "mset [Fin False 1 53, Fin False 1 0, Fin False 1 0]
     = mset [Fin False 1 0, Fin False 1 0, Fin False 1 53]
   \<and> fst (get_variance (fp_arith Double Double) Population
        (variance_new_range (fp_arith Double Double)
           [Fin False 1 53, Fin False 1 0, Fin False 1 0]))
      = Fin False 2001599834386887 53
   \<and> fst (get_variance (fp_arith Double Double) Population
        (variance_new_range (fp_arith Double Double)
           [Fin False 1 0, Fin False 1 0, Fin False 1 53]))
      = Fin False 4003199668773773 52
   \<and> fst (get_standard_deviation (fp_arith Double Double) sd_Population
        (standard_deviation_new_range (fp_arith Double Double)
           [Fin False 1 53, Fin False 1 0, Fin False 1 0]))
      = Fin False 4246034448350515 0
   \<and> fst (get_standard_deviation (fp_arith Double Double) sd_Population
        (standard_deviation_new_range (fp_arith Double Double)
           [Fin False 1 0, Fin False 1 0, Fin False 1 53]))
      = Fin False 8492068896701029 (- 1)"
  by (simp add: fp_eval variance_eval sd_eval fp_arith_def cong: let_weak_cong)

text \<open>
  C8, amended: when the two accumulation steps of the instance commute (adding \<open>a\<close> then
  \<open>b\<close> to a stored sum gives what adding \<open>b\<close> then \<open>a\<close> gives, as in unsigned
  arithmetic, which wraps around), adding the values of a finite multiset in any order
  leaves the accumulator in the same state, with the same \<open>get_variance()\<close> and
  \<open>get_standard_deviation()\<close>.
\<close>

theorem order_invariance_when_steps_commute:
  assumes "\<forall>s a b. add_square A (add_square A s a) b = add_square A (add_square A s b) a"
    and "\<forall>s a b. add_value A (add_value A s a) b = add_value A (add_value A s b) a"
    and "mset xs = mset ys"
  shows "add_each A v xs = add_each A v ys
    \<and> get_variance A vt (add_each A v xs) = get_variance A vt (add_each A v ys)
    \<and> sd_add_each A w xs = sd_add_each A w ys
    \<and> sd_get_variance A vt (sd_add_each A w xs) = sd_get_variance A vt (sd_add_each A w ys)
    \<and> get_standard_deviation A vt (sd_add_each A w xs)
        = get_standard_deviation A vt (sd_add_each A w ys)"
  using add_each_mset [OF assms] sd_add_each_mset [OF assms] by simp

theorem order_invariance_when_steps_commute_witness:
  "(\<forall>s a b. add_square uint32_arith (add_square uint32_arith s a) b
        = add_square uint32_arith (add_square uint32_arith s b) a)
   \<and> (\<forall>s a b. add_value uint32_arith (add_value uint32_arith s a) b
        = add_value uint32_arith (add_value uint32_arith s b) a)
   \<and> mset [1, 2, 3 :: 32 word] = mset [3, 1, 2]
   \<and> get_variance uint32_arith Population
        (add_each uint32_arith (variance_new uint32_arith) [1, 2, 3])
      = get_variance uint32_arith Population
        (add_each uint32_arith (variance_new uint32_arith) [3, 1, 2])
   \<and> get_standard_deviation uint32_arith sd_Population
        (sd_add_each uint32_arith (standard_deviation_new uint32_arith) [1, 2, 3])
      = get_standard_deviation uint32_arith sd_Population
        (sd_add_each uint32_arith (standard_deviation_new uint32_arith) [3, 1, 2])"
proof -
  have h1: "\<forall>s a b. add_square uint32_arith (add_square uint32_arith s a) b
        = add_square uint32_arith (add_square uint32_arith s b) a"
    by (simp add: uint32_arith_def)
  have h2: "\<forall>s a b. add_value uint32_arith (add_value uint32_arith s a) b
        = add_value uint32_arith (add_value uint32_arith s b) a"
    by (simp add: uint32_arith_def)
  have h3: "mset [1, 2, 3 :: 32 word] = mset [3, 1, 2]"
    by simp
  from order_invariance_when_steps_commute [OF h1 h2 h3] h1 h2 h3
  show ?thesis by blast
qed

section \<open>The type of the stored sums\<close>

text \<open>
  C9: for a floating-point input type the sums are stored in that type, whatever the
  calculation type: the stored sums of every reachable state are values of the input
  type. For a \<open>float\<close> input and a \<open>double\<close> calculation type each accumulation is
  the sum in \<open>double\<close> rounded to \<open>float\<close>: adding 1 to a stored \<open>2^24\<close> leaves
  \<open>2^24\<close>, where the sum in \<open>double\<close> is 16777217.
\<close>

theorem float_sums_stored_in_input_type:
  "traits_storage Float TCalc = Float \<and> traits_storage Double TCalc = Double
   \<and> sums_in_format TInput (run (fp_arith TInput TCalc) vt cs)
   \<and> sd_sums_in_format TInput (sd_run (fp_arith TInput TCalc) vt ds)
   \<and> add_square (fp_arith Float Double) s x =
       fconv Float (fadd Double s (fconv Double (fmul Float x x)))
   \<and> add_value (fp_arith Float Double) s x = fconv Float (fadd Double s (fconv Double x))
   \<and> fadd Double (Fin False 1 24) fp_one = Fin False 16777217 0
   \<and> add_value (fp_arith Float Double) (Fin False 1 24) fp_one = Fin False 1 24"
proof -
  have "sums_in_format TInput (run (fp_arith TInput TCalc) vt cs)"
    using sums_in_format_run [of TInput TCalc vt cs] by (simp add: traits_storage_input)
  moreover have "sd_sums_in_format TInput (sd_run (fp_arith TInput TCalc) vt ds)"
    using sd_sums_in_format_run [of TInput TCalc vt ds] by (simp add: traits_storage_input)
  moreover have "fadd Double (Fin False 1 24) fp_one = Fin False 16777217 0"
    by (simp add: fp_eval cong: let_weak_cong)
  moreover have "add_value (fp_arith Float Double) (Fin False 1 24) fp_one = Fin False 1 24"
    by (simp add: fp_eval fp_arith_def cong: let_weak_cong)
  ultimately show ?thesis by (simp add: fp_arith_def Let_def)
qed

end
